theory Spec2Isabelle
  imports Complex_Main "HOL-Library.Log_Nat"
begin

section \<open>Python values used by the handlers of \<^verbatim>\<open>main.py\<close>\<close>

text \<open>
  A Python \<^verbatim>\<open>str\<close> is a sequence of Unicode code points, and \<^verbatim>\<open>len\<close> and slicing
  count code points. The status strings of \<^verbatim>\<open>test_database\<close> contain code points beyond
  ASCII, so a Python string is a list of code points; \<open>ascii\<close> embeds an ASCII literal.
  Strings that are ASCII by construction (dictionary keys, date labels) stay HOL strings.
\<close>

type_synonym ustr = "nat list"

definition ascii :: "string \<Rightarrow> ustr" where
  "ascii s = map of_char s"

text \<open>
  An instance of Python's \<^verbatim>\<open>Exception\<close> (what \<^verbatim>\<open>except Exception\<close> catches), with the
  text that \<^verbatim>\<open>str(e)\<close> returns.
\<close>

datatype py_exn = PyException (exn_str: ustr)

section \<open>Python floats: IEEE 754 binary64\<close>

text \<open>
  The stress test adds the floats of a request and tests the sign of the result, so
  there the rounding of every addition decides the answer. A Python \<^verbatim>\<open>float\<close> is a
  binary64 value: a finite value is the rational it denotes (the two zeros are one value:
  no operation used here tells them apart), and there are two infinities and NaN.
\<close>

datatype pyfloat = Finite rat | PosInf | NegInf | NaN

text \<open>
  Rounding to nearest, ties to even. For \<open>a > 0\<close>, \<open>floor_log2 a\<close> is the exponent \<open>e\<close>
  with \<open>2^e \<le> a < 2^(e+1)\<close>. A binary64 value with exponent \<open>e\<close> is a multiple of
  \<open>2^(e - 52)\<close> (53 significant bits), and of \<open>2^(-1074)\<close> below the normal range, where
  the exponent stays at \<open>-1022\<close>. A magnitude that rounds to \<open>2^1024\<close> or more overflows
  to an infinity.
\<close>

definition floor_log2 :: "rat \<Rightarrow> int" where
  "floor_log2 a = (if 1 \<le> a then bitlen \<lfloor>a\<rfloor> - 1 else - bitlen (\<lceil>1 / a\<rceil> - 1))"

definition pow2 :: "int \<Rightarrow> rat" where
  "pow2 k = (if 0 \<le> k then 2 ^ nat k else 1 / 2 ^ nat (- k))"

definition round_half_even :: "rat \<Rightarrow> int" where
  "round_half_even x =
     (let n = \<lfloor>x\<rfloor>; d = x - of_int n
      in if d < 1 / 2 then n else if 1 / 2 < d then n + 1 else if even n then n else n + 1)"

definition round_magnitude :: "rat \<Rightarrow> rat" where
  "round_magnitude a =
     (let q = pow2 (max (floor_log2 a) (- 1022) - 52)
      in of_int (round_half_even (a / q)) * q)"

definition round64 :: "rat \<Rightarrow> pyfloat" where
  "round64 x =
     (if x = 0 then Finite 0
      else let r = round_magnitude \<bar>x\<bar>
           in if 1024 \<le> floor_log2 r then (if x < 0 then NegInf else PosInf)
              else Finite (if x < 0 then - r else r))"

text \<open>
  The operations on floats that the builtin \<^verbatim>\<open>sum\<close> and the handler use: negation,
  addition (the exact sum, rounded), absolute value, comparison (false whenever NaN is
  involved) and the test for a finite value.
\<close>

fun fneg :: "pyfloat \<Rightarrow> pyfloat" where
  "fneg (Finite a) = Finite (- a)"
| "fneg PosInf = NegInf"
| "fneg NegInf = PosInf"
| "fneg NaN = NaN"

fun fadd :: "pyfloat \<Rightarrow> pyfloat \<Rightarrow> pyfloat" where
  "fadd (Finite a) (Finite b) = round64 (a + b)"
| "fadd NaN y = NaN"
| "fadd x NaN = NaN"
| "fadd PosInf NegInf = NaN"
| "fadd NegInf PosInf = NaN"
| "fadd PosInf y = PosInf"
| "fadd NegInf y = NegInf"
| "fadd (Finite a) y = y"

fun fabs :: "pyfloat \<Rightarrow> pyfloat" where
  "fabs (Finite a) = Finite \<bar>a\<bar>"
| "fabs PosInf = PosInf"
| "fabs NegInf = PosInf"
| "fabs NaN = NaN"

fun fless :: "pyfloat \<Rightarrow> pyfloat \<Rightarrow> bool" where
  "fless (Finite a) (Finite b) = (a < b)"
| "fless NaN y = False"
| "fless x NaN = False"
| "fless x NegInf = False"
| "fless PosInf y = False"
| "fless NegInf y = True"
| "fless (Finite a) PosInf = True"

fun feq :: "pyfloat \<Rightarrow> pyfloat \<Rightarrow> bool" where
  "feq NaN y = False"
| "feq x NaN = False"
| "feq x y = (x = y)"

fun is_finite :: "pyfloat \<Rightarrow> bool" where
  "is_finite (Finite a) = True"
| "is_finite x = False"

instantiation pyfloat :: "{zero,plus,minus,uminus,abs,ord}"
begin

definition zero_pyfloat :: pyfloat where
  "zero_pyfloat = Finite 0"

definition plus_pyfloat :: "pyfloat \<Rightarrow> pyfloat \<Rightarrow> pyfloat" where
  "plus_pyfloat x y = fadd x y"

definition uminus_pyfloat :: "pyfloat \<Rightarrow> pyfloat" where
  "uminus_pyfloat x = fneg x"

definition minus_pyfloat :: "pyfloat \<Rightarrow> pyfloat \<Rightarrow> pyfloat" where
  "minus_pyfloat x y = fadd x (fneg y)"

definition abs_pyfloat :: "pyfloat \<Rightarrow> pyfloat" where
  "abs_pyfloat x = fabs x"

definition less_pyfloat :: "pyfloat \<Rightarrow> pyfloat \<Rightarrow> bool" where
  "less_pyfloat x y = fless x y"

definition less_eq_pyfloat :: "pyfloat \<Rightarrow> pyfloat \<Rightarrow> bool" where
  "less_eq_pyfloat x y = (fless x y \<or> feq x y)"

instance ..

end

section \<open>The builtin \<^verbatim>\<open>sum\<close>\<close>

text \<open>
  \<^verbatim>\<open>sum\<close> belongs to the interpreter, not to the repository, and the interpreter is
  not pinned. Up to CPython 3.11 it adds the items to 0 from left to right, each
  addition rounded: \<open>py_sum\<close>. From CPython 3.12 on it adds floats with Neumaier's
  compensation: the first item is added to 0, then every further item \<open>x\<close> updates the
  running sum \<open>f_result\<close> and the accumulated rounding error \<open>c\<close>, and the error is
  added at the end when it is finite and not zero: \<open>py_sum_compensated\<close>. The handler
  takes the builtin as a parameter, and the properties are stated for both.
\<close>

definition py_sum :: "'f::{zero,plus} list \<Rightarrow> 'f" where
  "py_sum xs = foldl (+) 0 xs"

definition compensated_step :: "pyfloat \<times> pyfloat \<Rightarrow> pyfloat \<Rightarrow> pyfloat \<times> pyfloat" where
  "compensated_step state x =
     (case state of (f_result, c) \<Rightarrow>
        (let t = f_result + x;
             c = (if \<bar>f_result\<bar> \<ge> \<bar>x\<bar> then c + ((f_result - t) + x)
                  else c + ((x - t) + f_result))
         in (t, c)))"

definition py_sum_compensated :: "pyfloat list \<Rightarrow> pyfloat" where
  "py_sum_compensated xs =
     (case xs of
        [] \<Rightarrow> 0
      | x # rest \<Rightarrow>
          (case foldl compensated_step (0 + x, 0) rest of
             (f_result, c) \<Rightarrow>
               if c \<noteq> 0 \<and> is_finite c then f_result + c else f_result))"

text \<open>
  No addition rounds: starting from \<open>acc\<close>, every item and every partial sum is a
  binary64 value as it stands.
\<close>

fun exactly_summable :: "rat \<Rightarrow> rat list \<Rightarrow> bool" where
  "exactly_summable acc [] = True"
| "exactly_summable acc (q # qs) =
     (round64 q = Finite q \<and> round64 (acc + q) = Finite (acc + q) \<and>
      exactly_summable (acc + q) qs)"

section \<open>\<^verbatim>\<open>POST /api/stress-test\<close>\<close>

record 'f ScenarioRequest =
  name :: ustr
  assumptions :: "(ustr \<times> 'f) list"

text \<open>The document handed to \<^verbatim>\<open>create_document\<close>: \<^verbatim>\<open>{"name": ..., "assumptions": ...}\<close>.\<close>

record 'f scenario_document =
  doc_name :: ustr
  doc_assumptions :: "(ustr \<times> 'f) list"

text \<open>The dictionary the handler returns.\<close>

record 'i stress_response =
  scenario_id :: "'i option"
  conviction_resp :: int
  weights_resp :: "(string \<times> real) list"

text \<open>
  \<^verbatim>\<open>create_document\<close> is imported from the \<^verbatim>\<open>database\<close> module; it is a parameter, and
  the outcome of its call is either a raised exception or the new identifier. The result
  of the handler is a sum as well: \<open>Inl\<close> would be an exception leaving the handler.
  The conviction is computed on Python integers, where \<^verbatim>\<open>int\<close> changes nothing. The
  values of the request are floats; the handler only hands them to \<open>builtin_sum\<close> and
  compares the result with 0, so its definition leaves their type open.
\<close>

definition stress_test ::
  "('f list \<Rightarrow> 'f) \<Rightarrow> (string \<Rightarrow> 'f scenario_document \<Rightarrow> py_exn + 'i)
     \<Rightarrow> ('f::{zero,ord}) ScenarioRequest \<Rightarrow> py_exn + 'i stress_response" where
  "stress_test builtin_sum create_document req =
     (let scenario_id =
            (case create_document ''scenario''
                    \<lparr>doc_name = name req, doc_assumptions = assumptions req\<rparr> of
               Inr new_id \<Rightarrow> Some new_id
             | Inl e \<Rightarrow> None);
          shift = (if assumptions req \<noteq> [] then builtin_sum (map snd (assumptions req)) else 0);
          conviction = max 0 (min 100 (70 + (5 * (if shift < 0 then 1 else - 1))));
          weights = [(''SPY'', 0.30), (''IEF'', 0.45), (''GLD'', 0.15), (''DBC'', 0.07),
                     (''SHY'', 0.03)]
      in Inr \<lparr>scenario_id = scenario_id, conviction_resp = conviction,
               weights_resp = weights\<rparr>)"

text \<open>A document store that is down: every call raises.\<close>

definition unreachable_store :: "string \<Rightarrow> pyfloat scenario_document \<Rightarrow> py_exn + nat" where
  "unreachable_store collection_name document = Inl (PyException (ascii ''unreachable''))"

section \<open>\<^verbatim>\<open>GET /api/regime-now\<close>\<close>

text \<open>
  Python floats are modelled as reals in the two read-only endpoints, where no result is
  a sign or a comparison that a rounding could turn: a decimal literal denotes its
  decimal value, \<^verbatim>\<open>**\<close> on a positive base is \<open>powr\<close>, and \<^verbatim>\<open>math.sin\<close>,
  \<^verbatim>\<open>math.cos\<close> and \<^verbatim>\<open>math.pi\<close> are \<open>sin\<close>, \<open>cos\<close> and \<open>pi\<close>. A \<^verbatim>\<open>Dict[str, float]\<close>
  built from a literal is an association list in the order of the literal.
\<close>

record RegimeNow =
  timestamp :: string
  regime :: string
  probabilities :: "(string \<times> real) list"
  conviction :: int
  weights :: "(string \<times> real) list"
  benchmark_weights :: "(string \<times> real) list"

text \<open>\<open>today\<close> is the value of \<^verbatim>\<open>date.today().isoformat()\<close> at the time of the call.\<close>

definition regime_now :: "string \<Rightarrow> RegimeNow" where
  "regime_now today =
     \<lparr>timestamp = today,
      regime = ''Slowdown'',
      probabilities = [(''Expansion'', 0.22), (''Slowdown'', 0.53), (''Contraction'', 0.18),
                       (''Recovery'', 0.07)],
      conviction = 84,
      weights = [(''SPY'', 0.35), (''IEF'', 0.35), (''GLD'', 0.15), (''DBC'', 0.10),
                 (''SHY'', 0.05)],
      benchmark_weights = [(''SPY'', 0.60), (''IEF'', 0.40)]\<rparr>"

section \<open>\<^verbatim>\<open>GET /api/backtest\<close>\<close>

record BacktestPoint =
  date :: string
  taa :: real
  saa :: real
  sixty_forty :: real

record BacktestResponse =
  equity_curve :: "BacktestPoint list"
  weights_over_time :: "(string \<times> real) list list"

text \<open>
  The f-string \<^verbatim>\<open>f"{2005 + i//12}-{(i%12)+1:02d}-01"\<close>: \<open>str_nat\<close> is the decimal
  representation of a nonnegative integer, \<open>format_02d\<close> the format \<^verbatim>\<open>02d\<close>, which pads
  with zeros on the left up to width 2.
\<close>

definition digit_char :: "nat \<Rightarrow> char" where
  "digit_char d = char_of (of_char CHR ''0'' + d)"

function str_nat :: "nat \<Rightarrow> string" where
  "str_nat n = (if n < 10 then [digit_char n] else str_nat (n div 10) @ [digit_char (n mod 10)])"
  by pat_completeness auto
termination
  by (relation "measure (\<lambda>n. n)") auto

declare str_nat.simps [simp del]

definition format_02d :: "nat \<Rightarrow> string" where
  "format_02d n = (let s = str_nat n in replicate (2 - length s) CHR ''0'' @ s)"

definition date_label :: "nat \<Rightarrow> string" where
  "date_label i = str_nat (2005 + i div 12) @ ''-'' @ format_02d ((i mod 12) + 1) @ ''-01''"

text \<open>
  One pass of the loop body for index \<open>i\<close>, with \<open>n\<close> the number of points: the point
  appended to \<^verbatim>\<open>pts\<close> and the dictionary appended to \<^verbatim>\<open>weights_ot\<close>.
\<close>

definition backtest_point :: "nat \<Rightarrow> nat \<Rightarrow> BacktestPoint" where
  "backtest_point n i =
     (let t = real i / real n;
          taa = 100 * (1 + 0.08) powr (t * 20) * (1 + 0.02 * sin (8 * t));
          saa = 100 * (1 + 0.05) powr (t * 20);
          sixty = 100 * (1 + 0.06) powr (t * 20)
      in \<lparr>date = date_label i, taa = taa, saa = saa, sixty_forty = sixty\<rparr>)"

definition backtest_weights :: "nat \<Rightarrow> nat \<Rightarrow> (string \<times> real) list" where
  "backtest_weights n i =
     (let t = real i / real n;
          w_spy = 0.55 - 0.25 * sin (2 * pi * t);
          w_ief = 0.35 + 0.20 * sin (2 * pi * t);
          w_gld = 0.10 + 0.10 * sin (4 * pi * t);
          w_dbc = max 0.0 (0.15 * cos (2 * pi * t));
          w_shy = max 0.0 (1 - (w_spy + w_ief + w_gld + w_dbc))
      in [(''SPY'', w_spy), (''IEF'', w_ief), (''GLD'', w_gld), (''DBC'', w_dbc),
          (''SHY'', w_shy)])"

text \<open>
  The loop \<^verbatim>\<open>for i in range(n)\<close> threads the two lists it appends to. The parameters
  \<open>start\<close>, \<open>end\<close> and \<open>benchmark\<close> are the query parameters; \<open>today\<close> is
  \<^verbatim>\<open>date.today().isoformat()\<close>, which replaces a missing \<open>end\<close>.
\<close>

definition backtest_step ::
  "nat \<Rightarrow> BacktestPoint list \<times> (string \<times> real) list list \<Rightarrow> nat
     \<Rightarrow> BacktestPoint list \<times> (string \<times> real) list list" where
  "backtest_step n acc i =
     (case acc of (pts, weights_ot) \<Rightarrow>
        (pts @ [backtest_point n i], weights_ot @ [backtest_weights n i]))"

definition backtest :: "string option \<Rightarrow> string option \<Rightarrow> string \<Rightarrow> string \<Rightarrow> BacktestResponse" where
  "backtest start end_arg benchmark today =
     (let end_arg = (case end_arg of None \<Rightarrow> Some today | Some e \<Rightarrow> Some e);
          n = 240;
          (pts, weights_ot) = foldl (backtest_step n) ([], []) [0..<n]
      in \<lparr>equity_curve = pts, weights_over_time = weights_ot\<rparr>)"

section \<open>\<^verbatim>\<open>GET /test\<close>\<close>

text \<open>
  The module-level \<^verbatim>\<open>db\<close> is imported from the \<^verbatim>\<open>database\<close> module and is either
  \<^verbatim>\<open>None\<close> or a handle. Of a handle the endpoint reads the attribute \<^verbatim>\<open>name\<close>
  (absent, or present and then either raising or giving a string) and calls
  \<^verbatim>\<open>list_collection_names()\<close>, which raises or returns the list of names.
\<close>

record db_handle =
  name_attr :: "(py_exn + ustr) option"
  list_collection_names :: "py_exn + ustr list"

record test_response =
  backend :: ustr
  database :: ustr
  database_url :: "ustr option"
  database_name :: "ustr option"
  connection_status :: string
  collections :: "ustr list"

text \<open>The three symbols of the status strings, as code points.\<close>

definition check_mark :: ustr where
  "check_mark = [0x2705]"

definition cross_mark :: ustr where
  "cross_mark = [0x274C]"

definition warning_sign :: ustr where
  "warning_sign = [0x26A0, 0xFE0F]"

text \<open>
  The body of the outer \<^verbatim>\<open>try\<close>. The dictionary \<^verbatim>\<open>response\<close> is updated in place, so the
  body returns the dictionary as it stands when the body ends, together with the
  exception that ended it, if any. \<^verbatim>\<open>hasattr\<close> reads the attribute and lets every
  exception of the read through, except for the absence of the attribute.
\<close>

definition test_database_body :: "db_handle option \<Rightarrow> test_response \<Rightarrow> test_response \<times> py_exn option" where
  "test_database_body db response =
     (case db of
        Some h \<Rightarrow>
          (let response = response\<lparr>database := check_mark @ ascii '' Available''\<rparr>;
               response = response\<lparr>database_url := Some (check_mark @ ascii '' Configured'')\<rparr>
           in case name_attr h of
                Some (Inl e) \<Rightarrow> (response, Some e)
              | nm \<Rightarrow>
                 (let response = response\<lparr>database_name :=
                         Some (case nm of Some (Inr s) \<Rightarrow> s
                                        | _ \<Rightarrow> check_mark @ ascii '' Connected'')\<rparr>;
                      response = response\<lparr>connection_status := ''Connected''\<rparr>
                  in case list_collection_names h of
                       Inr names \<Rightarrow>
                         (let response = response\<lparr>collections := take 10 names\<rparr>;
                              response = response\<lparr>database :=
                                 check_mark @ ascii '' Connected & Working''\<rparr>
                          in (response, None))
                     | Inl e \<Rightarrow>
                         (response\<lparr>database := warning_sign @ ascii ''  Connected but Error: ''
                                                  @ take 50 (exn_str e)\<rparr>, None)))
      | None \<Rightarrow>
          (response\<lparr>database := warning_sign @ ascii ''  Available but not initialized''\<rparr>,
           None))"

text \<open>
  \<^verbatim>\<open>os.getenv\<close> reads the environment, a map from variable names to values; a value is
  truthy when it is set and not empty.
\<close>

definition getenv_truthy :: "(string \<rightharpoonup> ustr) \<Rightarrow> string \<Rightarrow> bool" where
  "getenv_truthy env var = (case env var of None \<Rightarrow> False | Some v \<Rightarrow> v \<noteq> [])"

definition test_database :: "db_handle option \<Rightarrow> (string \<rightharpoonup> ustr) \<Rightarrow> py_exn + test_response" where
  "test_database db env =
     (let response =
            \<lparr>backend = check_mark @ ascii '' Running'',
             database = cross_mark @ ascii '' Not Available'',
             database_url = None,
             database_name = None,
             connection_status = ''Not Connected'',
             collections = []\<rparr>;
          response =
            (case test_database_body db response of
               (response, None) \<Rightarrow> response
             | (response, Some e) \<Rightarrow>
                 response\<lparr>database := cross_mark @ ascii '' Error: '' @ take 50 (exn_str e)\<rparr>);
          response = response\<lparr>database_url :=
            Some (if getenv_truthy env ''DATABASE_URL'' then check_mark @ ascii '' Set''
                  else cross_mark @ ascii '' Not Set'')\<rparr>;
          response = response\<lparr>database_name :=
            Some (if getenv_truthy env ''DATABASE_NAME'' then check_mark @ ascii '' Set''
                  else cross_mark @ ascii '' Not Set'')\<rparr>
      in Inr response)"

section \<open>Properties of the float model and of the builtin sum\<close>

text \<open>
  The exponent that \<open>floor_log2\<close> computes is the one rounding needs, and \<open>round64\<close>
  gives the binary64 values that the interpreter gives: the float of \<^verbatim>\<open>0.1\<close>, a tie that
  goes down to an even significand and one that goes up, and a value that needs no
  rounding.
\<close>

lemma floor_log2_bounds:
  assumes "0 < a"
  shows "pow2 (floor_log2 a) \<le> a \<and> a < 2 * pow2 (floor_log2 a)"
proof (cases "1 \<le> a")
  case True
  define n where "n = \<lfloor>a\<rfloor>"
  have n: "1 \<le> n" "of_int n \<le> a" "a < of_int n + 1"
  proof -
    show "1 \<le> n" using True by (simp add: n_def le_floor_iff)
    show "of_int n \<le> a" by (simp add: n_def)
    show "a < of_int n + 1" unfolding n_def by linarith
  qed
  have b: "2 ^ nat (bitlen n - 1) \<le> n" "n < 2 ^ nat (bitlen n)"
    using bitlen_bounds [of n] n(1) by simp_all
  have b1: "1 \<le> bitlen n"
    using n(1) by (simp add: bitlen_alt_def)
  have e: "floor_log2 a = bitlen n - 1"
    using True by (simp add: floor_log2_def n_def)
  have p: "pow2 (floor_log2 a) = 2 ^ nat (bitlen n - 1)"
    using b1 by (simp add: e pow2_def)
  have "(2::rat) ^ nat (bitlen n - 1) \<le> of_int n"
    using b(1) by (metis of_int_le_iff of_int_numeral of_int_power)
  then have lo: "pow2 (floor_log2 a) \<le> a"
    using n(2) p by linarith
  have "n + 1 \<le> 2 ^ nat (bitlen n)"
    using b(2) by simp
  then have "(of_int (n + 1) :: rat) \<le> of_int (2 ^ nat (bitlen n))"
    by (simp only: of_int_le_iff)
  then have "of_int n + 1 \<le> (2::rat) ^ nat (bitlen n)"
    by simp
  moreover have "(2::rat) ^ nat (bitlen n) = 2 * 2 ^ nat (bitlen n - 1)"
  proof -
    have "nat (bitlen n) = Suc (nat (bitlen n - 1))"
      using b1 by simp
    then show ?thesis by simp
  qed
  ultimately have hi: "a < 2 * pow2 (floor_log2 a)"
    using n(3) p by linarith
  from lo hi show ?thesis ..
next
  case False
  define y where "y = 1 / a"
  define m where "m = \<lceil>y\<rceil> - 1"
  have y: "1 < y"
    using False assms by (simp add: y_def)
  have m: "1 \<le> m" "of_int m < y" "y \<le> of_int m + 1"
  proof -
    have "2 \<le> \<lceil>y\<rceil>"
      using y by (simp add: le_ceiling_iff)
    then show "1 \<le> m" by (simp add: m_def)
    show "of_int m < y"
      unfolding m_def by linarith
    show "y \<le> of_int m + 1"
      unfolding m_def by simp
  qed
  have b: "2 ^ nat (bitlen m - 1) \<le> m" "m < 2 ^ nat (bitlen m)"
    using bitlen_bounds [of m] m(1) by simp_all
  have b1: "1 \<le> bitlen m"
    using m(1) by (simp add: bitlen_alt_def)
  have e: "floor_log2 a = - bitlen m"
    using False by (simp add: floor_log2_def m_def y_def)
  have p: "pow2 (floor_log2 a) = 1 / 2 ^ nat (bitlen m)"
    using b1 by (simp add: e pow2_def)
  have a: "a = 1 / y"
    using assms by (simp add: y_def)
  have "m + 1 \<le> 2 ^ nat (bitlen m)"
    using b(2) by simp
  then have "(of_int (m + 1) :: rat) \<le> of_int (2 ^ nat (bitlen m))"
    by (simp only: of_int_le_iff)
  then have "y \<le> (2::rat) ^ nat (bitlen m)"
    using m(3) by simp
  then have "1 / (2::rat) ^ nat (bitlen m) \<le> 1 / y"
    using y by (simp add: field_simps)
  then have lo: "pow2 (floor_log2 a) \<le> a"
    by (simp only: p a [symmetric])
  have "(2::rat) ^ nat (bitlen m - 1) \<le> of_int m"
    using b(1) by (metis of_int_le_iff of_int_numeral of_int_power)
  then have lt: "(2::rat) ^ nat (bitlen m - 1) < y"
    using m(2) by linarith
  have pw: "(2::rat) ^ nat (bitlen m) = 2 * 2 ^ nat (bitlen m - 1)"
  proof -
    have "nat (bitlen m) = Suc (nat (bitlen m - 1))"
      using b1 by simp
    then show ?thesis by simp
  qed
  have "1 / y < 2 * (1 / (2 * (2::rat) ^ nat (bitlen m - 1)))"
    using lt y by (simp add: field_simps)
  then have hi: "a < 2 * pow2 (floor_log2 a)"
    by (simp only: p pw a [symmetric])
  from lo hi show ?thesis ..
qed

lemma round64_examples:
  "round64 (1 / 10) = Finite (3602879701896397 / 36028797018963968)"
  "round64 (2 ^ 53 + 1) = Finite (2 ^ 53)"
  "round64 (2 ^ 53 + 3) = Finite (2 ^ 53 + 4)"
  "round64 (- (3 / 2)) = Finite (- (3 / 2))"
  by code_simp+

text \<open>Rounding is symmetric, so the negation of a binary64 value is one as well.\<close>

lemma round64_uminus: "round64 (- x) = fneg (round64 x)"
  by (cases "x = 0") (auto simp: round64_def Let_def)

lemma round64_zero: "round64 0 = Finite 0"
  by (simp add: round64_def)

text \<open>
  When no addition rounds, both algorithms return the exact sum of the values: the left
  fold because every step is exact, the compensated sum because every rounding error
  it records is 0.
\<close>

lemma py_sum_exact_from:
  "exactly_summable acc qs \<Longrightarrow>
     foldl (+) (Finite acc) (map Finite qs) = Finite (acc + sum_list qs)"
  by (induction qs arbitrary: acc) (simp_all add: plus_pyfloat_def add.assoc)

lemma py_sum_exact:
  "exactly_summable 0 qs \<Longrightarrow> py_sum (map Finite qs) = Finite (sum_list qs)"
  using py_sum_exact_from [of 0 qs] by (simp add: py_sum_def zero_pyfloat_def)

lemma compensated_step_exact:
  assumes "round64 acc = Finite acc" "round64 q = Finite q" "round64 (acc + q) = Finite (acc + q)"
  shows "compensated_step (Finite acc, Finite 0) (Finite q) = (Finite (acc + q), Finite 0)"
proof -
  have nq: "round64 (- q) = Finite (- q)" and na: "round64 (- acc) = Finite (- acc)"
    using assms by (simp_all add: round64_uminus)
  show ?thesis
    using assms nq na
    by (simp add: compensated_step_def plus_pyfloat_def minus_pyfloat_def Let_def round64_zero)
qed

lemma compensated_loop_exact:
  "round64 acc = Finite acc \<Longrightarrow> exactly_summable acc qs \<Longrightarrow>
     foldl compensated_step (Finite acc, Finite 0) (map Finite qs)
       = (Finite (acc + sum_list qs), Finite 0)"
  by (induction qs arbitrary: acc) (simp_all add: compensated_step_exact add.assoc)

lemma py_sum_compensated_exact:
  assumes "exactly_summable 0 qs"
  shows "py_sum_compensated (map Finite qs) = Finite (sum_list qs)"
proof (cases qs)
  case Nil
  then show ?thesis by (simp add: py_sum_compensated_def zero_pyfloat_def)
next
  case (Cons q rest)
  with assms have q: "round64 q = Finite q" and rest: "exactly_summable q rest"
    by simp_all
  show ?thesis
    using compensated_loop_exact [OF q rest] q
    by (simp add: Cons py_sum_compensated_def zero_pyfloat_def plus_pyfloat_def)
qed

lemma builtin_sum_exact:
  assumes "builtin_sum = py_sum \<or> builtin_sum = py_sum_compensated"
    and "exactly_summable 0 qs"
  shows "builtin_sum (map Finite qs) = Finite (sum_list qs)"
  using assms py_sum_exact py_sum_compensated_exact by auto

lemma builtin_sum_single:
  assumes "builtin_sum = py_sum \<or> builtin_sum = py_sum_compensated"
    and "round64 q = Finite q"
  shows "builtin_sum [Finite q] = Finite q"
  using builtin_sum_exact [OF assms(1), of "[q]"] assms(2) by simp

lemma less_zero_Finite: "(Finite q < 0) = (q < 0)"
  by (simp add: less_pyfloat_def zero_pyfloat_def)

text \<open>
  Five values whose exact sum is \<open>-1\<close>: both algorithms return 0. The floats are those
  of the literals \<^verbatim>\<open>1e40\<close>, \<^verbatim>\<open>1e20\<close>, \<^verbatim>\<open>-1.0\<close>, \<^verbatim>\<open>-1e20\<close> and \<^verbatim>\<open>-1e40\<close>.
\<close>

lemma cancelling_literals:
  "[round64 (10 ^ 40), round64 (10 ^ 20), round64 (- 1), round64 (- (10 ^ 20)),
    round64 (- (10 ^ 40))]
     = map Finite [10000000000000000303786028427003666890752, 10 ^ 20, - 1, - (10 ^ 20),
                   - 10000000000000000303786028427003666890752]"
  by code_simp

lemma cancelling_sum_left_fold:
  "py_sum [round64 (10 ^ 40), round64 (10 ^ 20), round64 (- 1), round64 (- (10 ^ 20)),
           round64 (- (10 ^ 40))] = Finite 0"
  by code_simp

lemma cancelling_sum_compensated:
  "py_sum_compensated [round64 (10 ^ 40), round64 (10 ^ 20), round64 (- 1),
                       round64 (- (10 ^ 20)), round64 (- (10 ^ 40))] = Finite 0"
  by code_simp

text \<open>
  Six values whose exact sum is \<open>1/2\<close>: both algorithms return \<open>-1/2\<close>. The floats are
  those of \<^verbatim>\<open>1e40\<close>, \<^verbatim>\<open>1e20\<close>, \<^verbatim>\<open>1.0\<close>, \<^verbatim>\<open>-1e20\<close>, \<^verbatim>\<open>-1e40\<close> and \<^verbatim>\<open>-0.5\<close>.
\<close>

lemma absorbing_literals:
  "[round64 (10 ^ 40), round64 (10 ^ 20), round64 1, round64 (- (10 ^ 20)),
    round64 (- (10 ^ 40)), round64 (- (1 / 2))]
     = map Finite [10000000000000000303786028427003666890752, 10 ^ 20, 1, - (10 ^ 20),
                   - 10000000000000000303786028427003666890752, - (1 / 2)]"
  by code_simp

lemma absorbing_sum_left_fold:
  "py_sum [round64 (10 ^ 40), round64 (10 ^ 20), round64 1, round64 (- (10 ^ 20)),
           round64 (- (10 ^ 40)), round64 (- (1 / 2))] = Finite (- (1 / 2))"
  by code_simp

lemma absorbing_sum_compensated:
  "py_sum_compensated [round64 (10 ^ 40), round64 (10 ^ 20), round64 1,
                       round64 (- (10 ^ 20)), round64 (- (10 ^ 40)), round64 (- (1 / 2))]
     = Finite (- (1 / 2))"
  by code_simp


section \<open>Properties of the stress test\<close>

text \<open>
  The handler in one equation: it always returns, and the clamped conviction is 75 for a
  negative shift and 65 otherwise.
\<close>

lemma stress_test_returns:
  "stress_test builtin_sum create_document req =
     Inr \<lparr>scenario_id =
            (case create_document ''scenario''
                    \<lparr>doc_name = name req, doc_assumptions = assumptions req\<rparr> of
               Inr new_id \<Rightarrow> Some new_id
             | Inl e \<Rightarrow> None),
          conviction_resp =
            (if (if assumptions req \<noteq> [] then builtin_sum (map snd (assumptions req)) else 0) < 0
             then 75 else 65),
          weights_resp = [(''SPY'', 0.30), (''IEF'', 0.45), (''GLD'', 0.15), (''DBC'', 0.07),
                          (''SHY'', 0.03)]\<rparr>"
  by (simp add: stress_test_def Let_def)

text \<open>When no addition rounds, the shift of the handler is the exact sum.\<close>

lemma shift_exact:
  assumes "builtin_sum = py_sum \<or> builtin_sum = py_sum_compensated"
    and "map snd (assumptions req) = map Finite qs"
    and "exactly_summable 0 qs"
  shows "(if assumptions req \<noteq> [] then builtin_sum (map snd (assumptions req)) else 0)
           = Finite (sum_list qs)"
proof (cases "assumptions req = []")
  case True
  with assms(2) have "qs = []" by simp
  with True show ?thesis by (simp add: zero_pyfloat_def)
next
  case False
  then show ?thesis
    using builtin_sum_exact [OF assms(1) assms(3)] assms(2) by simp
qed

text \<open>
  Claim C1, as amended: under either algorithm of the builtin \<^verbatim>\<open>sum\<close>, the handler
  returns, and the conviction it returns is \<open>70 + 5 * (1 if shift < 0 else -1)\<close> clamped
  to the range from 0 to 100, where \<open>shift\<close> is the float that \<^verbatim>\<open>sum\<close> returns for the
  assumption values and 0 when there are none. Whenever no addition rounds, \<open>shift\<close> is
  the exact sum of the values, and the conviction is that formula of the exact sum.
  With the single assumption \<open>a = -1.0\<close> the conviction is 75, with \<open>a = 1.0\<close> it is 65,
  and with no assumption it is 65.
\<close>

theorem stress_test_conviction_formula:
  fixes req :: "pyfloat ScenarioRequest"
    and create_document :: "string \<Rightarrow> pyfloat scenario_document \<Rightarrow> py_exn + 'i"
  assumes builtin: "builtin_sum = py_sum \<or> builtin_sum = py_sum_compensated"
  shows
  "(\<exists>r. stress_test builtin_sum create_document req = Inr r \<and>
        conviction_resp r =
          (let shift = (if assumptions req = [] then 0
                        else builtin_sum (map snd (assumptions req)));
               v = 70 + 5 * (if shift < 0 then 1 else - 1)
           in if v < 0 then 0 else if 100 < v then 100 else v)) \<and>
   (map snd (assumptions req) = map Finite qs \<and> exactly_summable 0 qs \<longrightarrow>
      (\<exists>r. stress_test builtin_sum create_document req = Inr r \<and>
           conviction_resp r =
             (let v = 70 + 5 * (if sum_list qs < 0 then 1 else - 1)
              in if v < 0 then 0 else if 100 < v then 100 else v))) \<and>
   (\<exists>r. stress_test builtin_sum create_document
           \<lparr>name = nm, assumptions = [(ascii ''a'', Finite (- 1))]\<rparr> = Inr r \<and>
        conviction_resp r = 75) \<and>
   (\<exists>r. stress_test builtin_sum create_document
           \<lparr>name = nm, assumptions = [(ascii ''a'', Finite 1)]\<rparr> = Inr r \<and>
        conviction_resp r = 65) \<and>
   (\<exists>r. stress_test builtin_sum create_document \<lparr>name = nm, assumptions = []\<rparr> = Inr r \<and>
        conviction_resp r = 65)"
proof -
  have general: "\<exists>r. stress_test builtin_sum create_document req = Inr r \<and>
        conviction_resp r =
          (let shift = (if assumptions req = [] then 0
                        else builtin_sum (map snd (assumptions req)));
               v = 70 + 5 * (if shift < 0 then 1 else - 1)
           in if v < 0 then 0 else if 100 < v then 100 else v)"
    by (simp add: stress_test_returns Let_def)
  have exact: "map snd (assumptions req) = map Finite qs \<and> exactly_summable 0 qs \<longrightarrow>
      (\<exists>r. stress_test builtin_sum create_document req = Inr r \<and>
           conviction_resp r =
             (let v = 70 + 5 * (if sum_list qs < 0 then 1 else - 1)
              in if v < 0 then 0 else if 100 < v then 100 else v))"
  proof
    assume h: "map snd (assumptions req) = map Finite qs \<and> exactly_summable 0 qs"
    then have "(if assumptions req \<noteq> [] then builtin_sum (map snd (assumptions req)) else 0)
                 = Finite (sum_list qs)"
      using shift_exact [OF builtin] by blast
    then show "\<exists>r. stress_test builtin_sum create_document req = Inr r \<and>
           conviction_resp r =
             (let v = 70 + 5 * (if sum_list qs < 0 then 1 else - 1)
              in if v < 0 then 0 else if 100 < v then 100 else v)"
      by (simp add: stress_test_returns less_zero_Finite Let_def)
  qed
  have m1: "round64 (- 1) = Finite (- 1)" and p1: "round64 1 = Finite 1"
    by code_simp+
  have neg: "\<exists>r. stress_test builtin_sum create_document
           \<lparr>name = nm, assumptions = [(ascii ''a'', Finite (- 1))]\<rparr> = Inr r \<and>
        conviction_resp r = 75"
    using builtin_sum_single [OF builtin m1]
    by (simp add: stress_test_returns less_zero_Finite)
  have pos: "\<exists>r. stress_test builtin_sum create_document
           \<lparr>name = nm, assumptions = [(ascii ''a'', Finite 1)]\<rparr> = Inr r \<and>
        conviction_resp r = 65"
    using builtin_sum_single [OF builtin p1]
    by (simp add: stress_test_returns less_zero_Finite)
  have none: "\<exists>r. stress_test builtin_sum create_document \<lparr>name = nm, assumptions = []\<rparr> = Inr r \<and>
        conviction_resp r = 65"
    by (simp add: stress_test_returns zero_pyfloat_def less_pyfloat_def)
  from general exact neg pos none show ?thesis by blast
qed

text \<open>
  Three values that add without rounding, \<open>1.5\<close>, \<open>-2.25\<close> and \<open>0.5\<close>, under the
  compensated sum: the exact sum is negative and the conviction is 75.
\<close>

theorem stress_test_conviction_formula_witness:
  "(py_sum_compensated = py_sum \<or> py_sum_compensated = py_sum_compensated) \<and>
   exactly_summable 0 [3 / 2, - (9 / 4), 1 / 2] \<and>
   (\<exists>r. stress_test py_sum_compensated unreachable_store
          \<lparr>name = ascii ''mixed'',
           assumptions = [(ascii ''a'', Finite (3 / 2)), (ascii ''b'', Finite (- (9 / 4))),
                          (ascii ''c'', Finite (1 / 2))]\<rparr> = Inr r \<and>
        conviction_resp r = 75)"
proof -
  have ex: "exactly_summable 0 [3 / 2, - (9 / 4), 1 / 2]"
    by code_simp
  have "\<exists>r. stress_test py_sum_compensated unreachable_store
          \<lparr>name = ascii ''mixed'',
           assumptions = [(ascii ''a'', Finite (3 / 2)), (ascii ''b'', Finite (- (9 / 4))),
                          (ascii ''c'', Finite (1 / 2))]\<rparr> = Inr r \<and>
        conviction_resp r =
             (let v = 70 + 5 * (if sum_list [3 / 2, - (9 / 4), 1 / 2 :: rat] < 0 then 1 else - 1)
              in if v < 0 then 0 else if 100 < v then 100 else v)"
    using stress_test_conviction_formula
      [where builtin_sum = py_sum_compensated
         and req = "\<lparr>name = ascii ''mixed'',
            assumptions = [(ascii ''a'', Finite (3 / 2)), (ascii ''b'', Finite (- (9 / 4))),
                           (ascii ''c'', Finite (1 / 2))]\<rparr>"
         and qs = "[3 / 2, - (9 / 4), 1 / 2]" and create_document = unreachable_store] ex
    by simp
  then show ?thesis using ex by simp
qed

text \<open>
  Claim C1, as stated, takes \<open>shift\<close> to be the sum of the values. For the request with
  the values \<^verbatim>\<open>1e40\<close>, \<^verbatim>\<open>1e20\<close>, \<^verbatim>\<open>-1.0\<close>, \<^verbatim>\<open>-1e20\<close> and \<^verbatim>\<open>-1e40\<close> the sum of the
  values is \<open>-1\<close>, for which the formula gives 75; the handler returns 65 under both
  algorithms, because the float sum is 0.
\<close>

theorem stress_test_conviction_exact_sum_counterexample:
  "\<not> isl (stress_test py_sum unreachable_store
            \<lparr>name = ascii ''cancel'',
             assumptions = [(ascii ''a'', round64 (10 ^ 40)), (ascii ''b'', round64 (10 ^ 20)),
                            (ascii ''c'', round64 (- 1)), (ascii ''d'', round64 (- (10 ^ 20))),
                            (ascii ''e'', round64 (- (10 ^ 40)))]\<rparr>) \<and>
   conviction_resp (projr (stress_test py_sum unreachable_store
            \<lparr>name = ascii ''cancel'',
             assumptions = [(ascii ''a'', round64 (10 ^ 40)), (ascii ''b'', round64 (10 ^ 20)),
                            (ascii ''c'', round64 (- 1)), (ascii ''d'', round64 (- (10 ^ 20))),
                            (ascii ''e'', round64 (- (10 ^ 40)))]\<rparr>)) = 65 \<and>
   \<not> isl (stress_test py_sum_compensated unreachable_store
            \<lparr>name = ascii ''cancel'',
             assumptions = [(ascii ''a'', round64 (10 ^ 40)), (ascii ''b'', round64 (10 ^ 20)),
                            (ascii ''c'', round64 (- 1)), (ascii ''d'', round64 (- (10 ^ 20))),
                            (ascii ''e'', round64 (- (10 ^ 40)))]\<rparr>) \<and>
   conviction_resp (projr (stress_test py_sum_compensated unreachable_store
            \<lparr>name = ascii ''cancel'',
             assumptions = [(ascii ''a'', round64 (10 ^ 40)), (ascii ''b'', round64 (10 ^ 20)),
                            (ascii ''c'', round64 (- 1)), (ascii ''d'', round64 (- (10 ^ 20))),
                            (ascii ''e'', round64 (- (10 ^ 40)))]\<rparr>)) = 65 \<and>
   [round64 (10 ^ 40), round64 (10 ^ 20), round64 (- 1), round64 (- (10 ^ 20)),
    round64 (- (10 ^ 40))]
     = map Finite [10000000000000000303786028427003666890752, 10 ^ 20, - 1, - (10 ^ 20),
                   - 10000000000000000303786028427003666890752] \<and>
   max 0 (min 100 (70 + 5 * (if sum_list [10000000000000000303786028427003666890752, 10 ^ 20,
                                           - 1, - (10 ^ 20),
                                           - 10000000000000000303786028427003666890752 :: rat] < 0
                             then 1 else - 1))) = (75 :: int)"
proof -
  let ?req = "\<lparr>name = ascii ''cancel'',
             assumptions = [(ascii ''a'', round64 (10 ^ 40)), (ascii ''b'', round64 (10 ^ 20)),
                            (ascii ''c'', round64 (- 1)), (ascii ''d'', round64 (- (10 ^ 20))),
                            (ascii ''e'', round64 (- (10 ^ 40)))]\<rparr>"
  have r1: "\<not> isl (stress_test py_sum unreachable_store ?req)"
    by (simp add: stress_test_returns)
  have c1: "conviction_resp (projr (stress_test py_sum unreachable_store ?req)) = 65"
    using cancelling_sum_left_fold by (simp add: stress_test_returns less_zero_Finite)
  have r2: "\<not> isl (stress_test py_sum_compensated unreachable_store ?req)"
    by (simp add: stress_test_returns)
  have c2: "conviction_resp (projr (stress_test py_sum_compensated unreachable_store ?req)) = 65"
    using cancelling_sum_compensated by (simp add: stress_test_returns less_zero_Finite)
  have claimed:
    "max 0 (min 100 (70 + 5 * (if sum_list [10000000000000000303786028427003666890752, 10 ^ 20,
                                           - 1, - (10 ^ 20),
                                           - 10000000000000000303786028427003666890752 :: rat] < 0
                             then 1 else - 1))) = (75 :: int)"
    by simp
  show ?thesis
    by (rule conjI [OF r1 conjI [OF c1 conjI [OF r2 conjI [OF c2
          conjI [OF cancelling_literals claimed]]]]])
qed


text \<open>
  Claim C9, as amended: under either algorithm of the builtin \<^verbatim>\<open>sum\<close>, the conviction
  returned is 65 or 75, and it is 75 exactly when the float that \<^verbatim>\<open>sum\<close> returns for the
  assumption values is negative and 65 otherwise; so it equals the unclamped
  \<open>70 + 5 * (1 if shift < 0 else -1)\<close>, and it lies strictly between 0 and 100. Whenever
  no addition rounds, it is 75 exactly when the exact sum of the values is negative, and
  65 exactly when that sum is not negative.
\<close>

theorem stress_test_conviction_values:
  fixes req :: "pyfloat ScenarioRequest"
    and create_document :: "string \<Rightarrow> pyfloat scenario_document \<Rightarrow> py_exn + 'i"
  assumes builtin: "builtin_sum = py_sum \<or> builtin_sum = py_sum_compensated"
  shows
  "\<exists>r. stress_test builtin_sum create_document req = Inr r \<and>
       (conviction_resp r = 65 \<or> conviction_resp r = 75) \<and>
       (conviction_resp r = 75) =
          ((if assumptions req = [] then 0 else builtin_sum (map snd (assumptions req))) < 0) \<and>
       (conviction_resp r = 65) =
          (\<not> (if assumptions req = [] then 0 else builtin_sum (map snd (assumptions req))) < 0) \<and>
       conviction_resp r =
          70 + 5 * (if (if assumptions req = [] then 0
                        else builtin_sum (map snd (assumptions req))) < 0
                    then 1 else - 1) \<and>
       0 < conviction_resp r \<and> conviction_resp r < 100 \<and>
       (map snd (assumptions req) = map Finite qs \<and> exactly_summable 0 qs \<longrightarrow>
          (conviction_resp r = 75) = (sum_list qs < 0) \<and>
          (conviction_resp r = 65) = (0 \<le> sum_list qs))"
proof -
  let ?shift = "if assumptions req \<noteq> [] then builtin_sum (map snd (assumptions req)) else 0"
  let ?c = "if ?shift < 0 then 75 else 65 :: int"
  have exact: "map snd (assumptions req) = map Finite qs \<and> exactly_summable 0 qs \<longrightarrow>
          (?c = 75) = (sum_list qs < 0) \<and> (?c = 65) = (0 \<le> sum_list qs)"
  proof
    assume "map snd (assumptions req) = map Finite qs \<and> exactly_summable 0 qs"
    then have "?shift = Finite (sum_list qs)"
      using shift_exact [OF builtin] by blast
    then show "(?c = 75) = (sum_list qs < 0) \<and> (?c = 65) = (0 \<le> sum_list qs)"
      by (simp add: less_zero_Finite not_less)
  qed
  show ?thesis
    using exact by (simp add: stress_test_returns)
qed

text \<open>
  Three values that add without rounding, \<open>0.25\<close>, \<open>0.5\<close> and \<open>-0.125\<close>, under the left
  fold: the exact sum is not negative and the conviction is 65.
\<close>

theorem stress_test_conviction_values_witness:
  "(py_sum = py_sum \<or> py_sum = py_sum_compensated) \<and>
   exactly_summable 0 [1 / 4, 1 / 2, - (1 / 8)] \<and>
   (\<exists>r. stress_test py_sum unreachable_store
          \<lparr>name = ascii ''mild'',
           assumptions = [(ascii ''a'', Finite (1 / 4)), (ascii ''b'', Finite (1 / 2)),
                          (ascii ''c'', Finite (- (1 / 8)))]\<rparr> = Inr r \<and>
        conviction_resp r = 65)"
proof -
  have ex: "exactly_summable 0 [1 / 4, 1 / 2, - (1 / 8)]"
    by code_simp
  have "\<exists>r. stress_test py_sum unreachable_store
          \<lparr>name = ascii ''mild'',
           assumptions = [(ascii ''a'', Finite (1 / 4)), (ascii ''b'', Finite (1 / 2)),
                          (ascii ''c'', Finite (- (1 / 8)))]\<rparr> = Inr r \<and>
        (conviction_resp r = 65) = (0 \<le> sum_list [1 / 4, 1 / 2, - (1 / 8) :: rat])"
    using stress_test_conviction_values
      [where builtin_sum = py_sum
         and req = "\<lparr>name = ascii ''mild'',
           assumptions = [(ascii ''a'', Finite (1 / 4)), (ascii ''b'', Finite (1 / 2)),
                          (ascii ''c'', Finite (- (1 / 8)))]\<rparr>"
         and qs = "[1 / 4, 1 / 2, - (1 / 8)]" and create_document = unreachable_store] ex
    by auto
  then show ?thesis using ex by simp
qed

text \<open>
  Claim C9, as stated, has the conviction at 75 exactly when the sum of the values is
  negative. For the request with the values \<^verbatim>\<open>1e40\<close>, \<^verbatim>\<open>1e20\<close>, \<^verbatim>\<open>1.0\<close>, \<^verbatim>\<open>-1e20\<close>,
  \<^verbatim>\<open>-1e40\<close> and \<^verbatim>\<open>-0.5\<close> the sum of the values is \<open>1/2\<close>, which is not negative, and
  the handler returns 75 under both algorithms, because the float sum is \<open>-1/2\<close>.
\<close>

theorem stress_test_conviction_sign_counterexample:
  "conviction_resp (projr (stress_test py_sum unreachable_store
            \<lparr>name = ascii ''absorb'',
             assumptions = [(ascii ''a'', round64 (10 ^ 40)), (ascii ''b'', round64 (10 ^ 20)),
                            (ascii ''c'', round64 1), (ascii ''d'', round64 (- (10 ^ 20))),
                            (ascii ''e'', round64 (- (10 ^ 40))),
                            (ascii ''f'', round64 (- (1 / 2)))]\<rparr>)) = 75 \<and>
   conviction_resp (projr (stress_test py_sum_compensated unreachable_store
            \<lparr>name = ascii ''absorb'',
             assumptions = [(ascii ''a'', round64 (10 ^ 40)), (ascii ''b'', round64 (10 ^ 20)),
                            (ascii ''c'', round64 1), (ascii ''d'', round64 (- (10 ^ 20))),
                            (ascii ''e'', round64 (- (10 ^ 40))),
                            (ascii ''f'', round64 (- (1 / 2)))]\<rparr>)) = 75 \<and>
   [round64 (10 ^ 40), round64 (10 ^ 20), round64 1, round64 (- (10 ^ 20)),
    round64 (- (10 ^ 40)), round64 (- (1 / 2))]
     = map Finite [10000000000000000303786028427003666890752, 10 ^ 20, 1, - (10 ^ 20),
                   - 10000000000000000303786028427003666890752, - (1 / 2)] \<and>
   \<not> sum_list [10000000000000000303786028427003666890752, 10 ^ 20, 1, - (10 ^ 20),
                - 10000000000000000303786028427003666890752, - (1 / 2) :: rat] < 0"
proof -
  let ?req = "\<lparr>name = ascii ''absorb'',
             assumptions = [(ascii ''a'', round64 (10 ^ 40)), (ascii ''b'', round64 (10 ^ 20)),
                            (ascii ''c'', round64 1), (ascii ''d'', round64 (- (10 ^ 20))),
                            (ascii ''e'', round64 (- (10 ^ 40))),
                            (ascii ''f'', round64 (- (1 / 2)))]\<rparr>"
  have c1: "conviction_resp (projr (stress_test py_sum unreachable_store ?req)) = 75"
    using absorbing_sum_left_fold by (simp add: stress_test_returns less_zero_Finite)
  have c2: "conviction_resp (projr (stress_test py_sum_compensated unreachable_store ?req)) = 75"
    using absorbing_sum_compensated by (simp add: stress_test_returns less_zero_Finite)
  have exact_sum:
    "\<not> sum_list [10000000000000000303786028427003666890752, 10 ^ 20, 1, - (10 ^ 20),
                  - 10000000000000000303786028427003666890752, - (1 / 2) :: rat] < 0"
    by simp
  show ?thesis
    by (rule conjI [OF c1 conjI [OF c2 conjI [OF absorbing_literals exact_sum]]])
qed

text \<open>
  Claim C7: whatever the name and the assumptions of the request, the weights returned
  are SPY 0.30, IEF 0.45, GLD 0.15, DBC 0.07 and SHY 0.03.
\<close>

theorem stress_test_weights_fixed:
  fixes req :: "('f::{zero,ord}) ScenarioRequest"
  shows
  "\<exists>r. stress_test builtin_sum create_document req = Inr r \<and>
       weights_resp r = [(''SPY'', 0.30), (''IEF'', 0.45), (''GLD'', 0.15), (''DBC'', 0.07),
                         (''SHY'', 0.03)]"
  by (simp add: stress_test_returns)

text \<open>
  Claim C6: when the call of \<^verbatim>\<open>create_document\<close> raises, the handler still returns a
  response, its \<open>scenario_id\<close> is \<^verbatim>\<open>None\<close>, and the response differs from the one of a
  run in which the call succeeds with \<open>new_id\<close> in the \<open>scenario_id\<close> only: conviction and
  weights are the same.
\<close>

theorem stress_test_persistence_failure:
  fixes req :: "('f::{zero,ord}) ScenarioRequest"
  assumes fails: "create_document ''scenario''
                    \<lparr>doc_name = name req, doc_assumptions = assumptions req\<rparr> = Inl e"
    and succeeds: "create_document' ''scenario''
                    \<lparr>doc_name = name req, doc_assumptions = assumptions req\<rparr> = Inr new_id"
  shows "\<exists>r. stress_test builtin_sum create_document req = Inr r \<and> scenario_id r = None \<and>
             stress_test builtin_sum create_document' req = Inr (r\<lparr>scenario_id := Some new_id\<rparr>)"
  using fails succeeds by (simp add: stress_test_returns)

text \<open>
  A store that is unreachable against a store that answers with identifier 7, on the
  same request.
\<close>

theorem stress_test_persistence_failure_witness:
  "\<exists>r. stress_test py_sum (\<lambda>c d. Inl (PyException (ascii ''unreachable'')))
          \<lparr>name = ascii ''rates up'', assumptions = [(ascii ''us10y'', Finite 6)]\<rparr> = Inr r \<and>
       scenario_id r = None \<and>
       stress_test py_sum (\<lambda>c d. Inr (7::nat))
          \<lparr>name = ascii ''rates up'', assumptions = [(ascii ''us10y'', Finite 6)]\<rparr>
         = Inr (r\<lparr>scenario_id := Some 7\<rparr>)"
  using stress_test_persistence_failure
    [where builtin_sum = py_sum
       and create_document = "\<lambda>c d. Inl (PyException (ascii ''unreachable''))"
       and req = "\<lparr>name = ascii ''rates up'', assumptions = [(ascii ''us10y'', Finite 6)]\<rparr>"
       and e = "PyException (ascii ''unreachable'')"
       and create_document' = "\<lambda>c d. Inr (7::nat)" and new_id = 7]
  by simp

section \<open>Properties of the regime snapshot\<close>

text \<open>
  Claim C4: the snapshot has a probabilities mapping of exactly 4 keys whose values sum
  to 1 within \<open>1e-9\<close>, the conviction 84, weights that sum to 1 and benchmark weights
  that sum to 1.
\<close>

theorem regime_now_snapshot:
  "length (probabilities (regime_now today)) = 4 \<and>
   distinct (map fst (probabilities (regime_now today))) \<and>
   \<bar>sum_list (map snd (probabilities (regime_now today))) - 1\<bar> \<le> 1 / 10 ^ 9 \<and>
   conviction (regime_now today) = 84 \<and>
   sum_list (map snd (weights (regime_now today))) = 1 \<and>
   sum_list (map snd (benchmark_weights (regime_now today))) = 1"
  by (simp add: regime_now_def)

section \<open>Properties of the synthetic backtest\<close>

lemma backtest_loop_maps:
  "foldl (backtest_step n) (ps, ws) xs
     = (ps @ map (backtest_point n) xs, ws @ map (backtest_weights n) xs)"
  by (induction xs arbitrary: ps ws) (simp_all add: backtest_step_def)

lemma backtest_unfold:
  "backtest start end_arg benchmark today =
     \<lparr>equity_curve = map (backtest_point 240) [0..<240],
      weights_over_time = map (backtest_weights 240) [0..<240]\<rparr>"
  by (simp add: backtest_def backtest_loop_maps Let_def del: upt_Suc upt.simps)

lemma str_nat_one_digit: "n < 10 \<Longrightarrow> str_nat n = [digit_char n]"
  by (subst str_nat.simps) simp

lemma str_nat_two_digits:
  "10 \<le> n \<Longrightarrow> n < 100 \<Longrightarrow> str_nat n = [digit_char (n div 10), digit_char (n mod 10)]"
  by (subst str_nat.simps) (simp add: str_nat_one_digit)

lemma format_02d_month:
  "n < 100 \<Longrightarrow> format_02d n = (if n < 10 then CHR ''0'' # str_nat n else str_nat n)"
  by (cases "n < 10") (simp_all add: format_02d_def str_nat_one_digit str_nat_two_digits numeral_2_eq_2)

text \<open>
  Claim C2: any two calls of \<^verbatim>\<open>GET /api/backtest\<close> give the same response, whatever the
  values of \<open>start\<close>, \<open>end\<close> and \<open>benchmark\<close> (and whatever the day of the call, which
  only fills in a missing \<open>end\<close>).
\<close>

theorem backtest_ignores_inputs:
  "backtest start1 end1 benchmark1 today1 = backtest start2 end2 benchmark2 today2"
  by (simp only: backtest_unfold)

lemma equity_curve_nth:
  "i < 240 \<Longrightarrow> equity_curve (backtest s e b t) ! i = backtest_point 240 i"
  by (simp add: backtest_unfold del: upt_Suc upt.simps)

lemma weights_nth:
  "i < 240 \<Longrightarrow> weights_over_time (backtest s e b t) ! i = backtest_weights 240 i"
  by (simp add: backtest_unfold del: upt_Suc upt.simps)

text \<open>
  Claim C5: the response has exactly 240 equity-curve points and exactly 240 weight
  mappings, so both lists have the same length; point 0 is dated 2005-01-01 and point
  239 is dated 2024-12-01; point \<open>i\<close> is labelled with the year \<open>2005 + i div 12\<close>, the
  month \<open>i mod 12 + 1\<close> written with two digits (a leading zero below 10) and the day 01;
  and the three index values of point 0 are all 100.
\<close>

theorem backtest_shape:
  "length (equity_curve (backtest s e b t)) = 240 \<and>
   length (weights_over_time (backtest s e b t)) = 240 \<and>
   length (equity_curve (backtest s e b t)) = length (weights_over_time (backtest s e b t)) \<and>
   date (equity_curve (backtest s e b t) ! 0) = ''2005-01-01'' \<and>
   date (equity_curve (backtest s e b t) ! 239) = ''2024-12-01'' \<and>
   (\<forall>i<240. date (equity_curve (backtest s e b t) ! i) =
        str_nat (2005 + i div 12) @ ''-'' @
        (if i mod 12 + 1 < 10 then CHR ''0'' # str_nat (i mod 12 + 1) else str_nat (i mod 12 + 1))
        @ ''-01'') \<and>
   taa (equity_curve (backtest s e b t) ! 0) = 100 \<and>
   saa (equity_curve (backtest s e b t) ! 0) = 100 \<and>
   sixty_forty (equity_curve (backtest s e b t) ! 0) = 100"
proof -
  have len: "length (equity_curve (backtest s e b t)) = 240"
    "length (weights_over_time (backtest s e b t)) = 240"
    by (simp_all add: backtest_unfold del: upt_Suc upt.simps)
  have d0: "date (equity_curve (backtest s e b t) ! 0) = ''2005-01-01''"
  proof -
    have "date_label 0 = ''2005-01-01''" by code_simp
    then show ?thesis by (simp add: equity_curve_nth backtest_point_def)
  qed
  have d239: "date (equity_curve (backtest s e b t) ! 239) = ''2024-12-01''"
  proof -
    have "date_label 239 = ''2024-12-01''" by code_simp
    then show ?thesis by (simp add: equity_curve_nth backtest_point_def)
  qed
  have lab: "\<forall>i<240. date (equity_curve (backtest s e b t) ! i) =
        str_nat (2005 + i div 12) @ ''-'' @
        (if i mod 12 + 1 < 10 then CHR ''0'' # str_nat (i mod 12 + 1) else str_nat (i mod 12 + 1))
        @ ''-01''"
  proof (intro allI impI)
    fix i :: nat
    assume i: "i < 240"
    have m: "i mod 12 + 1 < 100"
      using mod_less_divisor [of 12 i] by linarith
    show "date (equity_curve (backtest s e b t) ! i) =
        str_nat (2005 + i div 12) @ ''-'' @
        (if i mod 12 + 1 < 10 then CHR ''0'' # str_nat (i mod 12 + 1) else str_nat (i mod 12 + 1))
        @ ''-01''"
    proof -
      have "date (equity_curve (backtest s e b t) ! i) = date_label i"
        using i by (simp add: equity_curve_nth backtest_point_def)
      also have "date_label i = str_nat (2005 + i div 12) @ ''-'' @
          (if i mod 12 + 1 < 10 then CHR ''0'' # str_nat (i mod 12 + 1) else str_nat (i mod 12 + 1))
          @ ''-01''"
        unfolding date_label_def format_02d_month [OF m] ..
      finally show ?thesis .
    qed
  qed
  have v0: "taa (equity_curve (backtest s e b t) ! 0) = 100"
    "saa (equity_curve (backtest s e b t) ! 0) = 100"
    "sixty_forty (equity_curve (backtest s e b t) ! 0) = 100"
    by (simp_all add: equity_curve_nth backtest_point_def)
  from len d0 d239 lab v0 show ?thesis by simp
qed

text \<open>The label of point 17, read off the general formula of C5.\<close>

theorem backtest_shape_witness:
  "(17::nat) < 240 \<and> date (equity_curve (backtest None None ''60_40'' ''2026-01-01'') ! 17) = ''2006-06-01''"
proof -
  have s: "str_nat 2006 = ''2006''" "str_nat 6 = ''6''" by code_simp+
  have "date (equity_curve (backtest None None ''60_40'' ''2026-01-01'') ! 17) =
        str_nat (2005 + 17 div 12) @ ''-'' @
        (if 17 mod 12 + 1 < (10::nat) then CHR ''0'' # str_nat (17 mod 12 + 1) else str_nat (17 mod 12 + 1))
        @ ''-01''"
    using backtest_shape [of None None "''60_40''" "''2026-01-01''"] by simp
  then show ?thesis by (simp add: s)
qed

lemma backtest_weights_keys:
  "map fst (backtest_weights n i) = [''SPY'', ''IEF'', ''GLD'', ''DBC'', ''SHY'']"
  by (simp add: backtest_weights_def Let_def)

lemma backtest_weights_nonneg:
  assumes "v \<in> snd ` set (backtest_weights n i)"
  shows "0 \<le> v"
proof -
  have s: "- 1 \<le> sin x" "sin x \<le> 1" for x :: real
    by simp_all
  have spy: "0 \<le> 0.55 - 0.25 * sin x" for x :: real
    using s(2) [of x] by (simp; linarith)
  have ief: "0 \<le> 0.35 + 0.20 * sin x" for x :: real
    using s(1) [of x] by (simp; linarith)
  have gld: "0 \<le> 0.10 + 0.10 * sin x" for x :: real
    using s(1) [of x] by (simp; linarith)
  from assms show ?thesis
    unfolding backtest_weights_def Let_def
    using spy ief gld by auto
qed

lemma backtest_weights_first:
  "backtest_weights 240 0 =
     [(''SPY'', 0.55), (''IEF'', 0.35), (''GLD'', 0.10), (''DBC'', 0.15), (''SHY'', 0)]"
  by (simp add: backtest_weights_def Let_def)

text \<open>
  Claim C10: each of the 240 weight mappings has the five keys SPY, IEF, GLD, DBC and SHY
  with nonnegative values, and yet the weights need not sum to 1: at index 0 they are
  0.55, 0.35, 0.10, 0.15 and 0, which sum to more than 1.
\<close>

theorem backtest_weights_nonnegative_not_normalised:
  "(\<forall>w \<in> set (weights_over_time (backtest s e b t)).
       map fst w = [''SPY'', ''IEF'', ''GLD'', ''DBC'', ''SHY''] \<and>
       (\<forall>v \<in> snd ` set w. 0 \<le> v)) \<and>
   length (weights_over_time (backtest s e b t)) = 240 \<and>
   weights_over_time (backtest s e b t) ! 0 =
     [(''SPY'', 0.55), (''IEF'', 0.35), (''GLD'', 0.10), (''DBC'', 0.15), (''SHY'', 0)] \<and>
   1 < sum_list (map snd (weights_over_time (backtest s e b t) ! 0))"
proof -
  have all: "\<forall>w \<in> set (weights_over_time (backtest s e b t)).
       map fst w = [''SPY'', ''IEF'', ''GLD'', ''DBC'', ''SHY''] \<and>
       (\<forall>v \<in> snd ` set w. 0 \<le> v)"
  proof
    fix w
    assume "w \<in> set (weights_over_time (backtest s e b t))"
    then obtain i where w: "w = backtest_weights 240 i"
      by (auto simp: backtest_unfold simp del: upt_Suc upt.simps)
    show "map fst w = [''SPY'', ''IEF'', ''GLD'', ''DBC'', ''SHY''] \<and> (\<forall>v \<in> snd ` set w. 0 \<le> v)"
      unfolding w using backtest_weights_keys backtest_weights_nonneg by blast
  qed
  have len: "length (weights_over_time (backtest s e b t)) = 240"
    by (simp add: backtest_unfold del: upt_Suc upt.simps)
  have first: "weights_over_time (backtest s e b t) ! 0 =
     [(''SPY'', 0.55), (''IEF'', 0.35), (''GLD'', 0.10), (''DBC'', 0.15), (''SHY'', 0)]"
    by (simp add: weights_nth backtest_weights_first)
  have "1 < sum_list (map snd (weights_over_time (backtest s e b t) ! 0))"
    unfolding first by simp
  with all len first show ?thesis by blast
qed

text \<open>The DBC weight of the first mapping, 0.15, is one of the values C10 speaks about.\<close>

theorem backtest_weights_nonnegative_witness:
  "weights_over_time (backtest None None ''60_40'' ''2026-01-01'') ! 0
      \<in> set (weights_over_time (backtest None None ''60_40'' ''2026-01-01'')) \<and>
   (0.15::real) \<in> snd ` set (weights_over_time (backtest None None ''60_40'' ''2026-01-01'') ! 0) \<and>
   (0::real) \<le> 0.15"
proof -
  let ?r = "backtest None None ''60_40'' ''2026-01-01''"
  note c10 = backtest_weights_nonnegative_not_normalised [of None None "''60_40''" "''2026-01-01''"]
  have len: "0 < length (weights_over_time ?r)"
    using c10 by simp
  have mem: "weights_over_time ?r ! 0 \<in> set (weights_over_time ?r)"
    using len by (rule nth_mem)
  have v: "(0.15::real) \<in> snd ` set (weights_over_time ?r ! 0)"
    using c10 by simp
  have "(0::real) \<le> 0.15"
    using c10 mem v by blast
  with mem v show ?thesis by blast
qed

section \<open>Properties of the diagnostic endpoint\<close>

lemma test_database_unfold_none:
  "test_database None env =
     Inr \<lparr>backend = check_mark @ ascii '' Running'',
          database = warning_sign @ ascii ''  Available but not initialized'',
          database_url = Some (if getenv_truthy env ''DATABASE_URL'' then check_mark @ ascii '' Set''
                  else cross_mark @ ascii '' Not Set''),
          database_name = Some (if getenv_truthy env ''DATABASE_NAME'' then check_mark @ ascii '' Set''
                  else cross_mark @ ascii '' Not Set''),
          connection_status = ''Not Connected'',
          collections = []\<rparr>"
  by (simp add: test_database_def test_database_body_def)

text \<open>
  Claim C8: \<^verbatim>\<open>GET /test\<close> returns a response for every database handle and every
  environment; when there is no handle and neither \<^verbatim>\<open>DATABASE_URL\<close> nor
  \<^verbatim>\<open>DATABASE_NAME\<close> is set, the response reports \<open>database_url\<close> and \<open>database_name\<close>
  as the cross mark followed by \<open>Not Set\<close>.
\<close>

theorem test_database_never_raises:
  "(\<exists>r. test_database db env = Inr r) \<and>
   (env ''DATABASE_URL'' = None \<and> env ''DATABASE_NAME'' = None \<longrightarrow>
      (\<exists>r. test_database None env = Inr r \<and>
           database_url r = Some (cross_mark @ ascii '' Not Set'') \<and>
           database_name r = Some (cross_mark @ ascii '' Not Set'')))"
  by (simp add: test_database_unfold_none getenv_truthy_def) (simp add: test_database_def)

text \<open>No handle and an empty environment.\<close>

theorem test_database_never_raises_witness:
  "\<exists>r. test_database None Map.empty = Inr r \<and>
       database_url r = Some ([0x274C] @ ascii '' Not Set'') \<and>
       database_name r = Some ([0x274C] @ ascii '' Not Set'')"
  using test_database_never_raises [of None Map.empty] by (simp add: cross_mark_def)

text \<open>
  Claim C3, as amended: when the handle exists, reading its name does not raise and
  \<^verbatim>\<open>list_collection_names\<close> raises \<open>e\<close>, the endpoint still returns a response, whose
  \<open>database\<close> field is the warning sign and \<open>Connected but Error:\<close> followed by the first
  50 characters of the text of \<open>e\<close>; the field is at most 75 characters long.
\<close>

theorem test_database_probe_failure:
  assumes reached: "\<forall>e'. name_attr h \<noteq> Some (Inl e')"
    and raises: "list_collection_names h = Inl e"
  shows "\<exists>r. test_database (Some h) env = Inr r \<and>
             database r = warning_sign @ ascii ''  Connected but Error: '' @ take 50 (exn_str e) \<and>
             length (take 50 (exn_str e)) \<le> 50 \<and>
             length (database r) \<le> 75"
proof -
  have body: "test_database_body (Some h) resp =
      (resp\<lparr>database := warning_sign @ ascii ''  Connected but Error: '' @ take 50 (exn_str e),
            database_url := Some (check_mark @ ascii '' Configured''),
            database_name := Some (case name_attr h of Some (Inr s) \<Rightarrow> s
                                        | _ \<Rightarrow> check_mark @ ascii '' Connected''),
            connection_status := ''Connected''\<rparr>, None)" for resp
    using reached raises
    by (cases "name_attr h") (auto simp: test_database_body_def Let_def split: sum.splits)
  show ?thesis
    by (simp add: test_database_def body warning_sign_def ascii_def)
qed

text \<open>A handle named \<open>regime\<close> whose probe times out.\<close>

theorem test_database_probe_failure_witness:
  "\<exists>r. test_database
          (Some \<lparr>name_attr = Some (Inr (ascii ''regime'')),
                 list_collection_names = Inl (PyException (ascii ''timed out''))\<rparr>)
          Map.empty = Inr r \<and>
       database r = [0x26A0, 0xFE0F] @ ascii ''  Connected but Error: timed out''"
  using test_database_probe_failure
    [of "\<lparr>name_attr = Some (Inr (ascii ''regime'')),
          list_collection_names = Inl (PyException (ascii ''timed out''))\<rparr>"
        "PyException (ascii ''timed out'')" Map.empty]
  by (simp add: warning_sign_def ascii_def) blast

text \<open>
  Claim C3, as stated, bounds the \<open>database\<close> field by 50 characters. With an exception
  whose text is 50 characters long the field has 75 characters: the bound of 50 is on the
  text of the exception, not on the field.
\<close>

theorem test_database_field_length_counterexample:
  "\<not> isl (test_database
            (Some \<lparr>name_attr = None,
                   list_collection_names = Inl (PyException (replicate 50 (of_char CHR ''x'')))\<rparr>)
            (map_of [])) \<and>
   \<not> length (database (projr (test_database
            (Some \<lparr>name_attr = None,
                   list_collection_names = Inl (PyException (replicate 50 (of_char CHR ''x'')))\<rparr>)
            (map_of [])))) \<le> 50"
  by (simp add: test_database_def test_database_body_def warning_sign_def ascii_def)

end
